theory Spec2Isabelle
  imports Complex_Main "HOL-Library.Multiset"
begin

section \<open>Python values used by the engine\<close>

text \<open>
  The development follows \<^verbatim>\<open>src/engine/curiosity_engine.py\<close> (class
  \<^verbatim>\<open>CuriosityEngine\<close>) and \<^verbatim>\<open>src/engine/models.py\<close> (class
  \<^verbatim>\<open>ModelRouter\<close>).

  Conventions of the embedding.
  \<^item> A Python \<^verbatim>\<open>str\<close> is a \<^typ>\<open>string\<close>; a \<^typ>\<open>char\<close> stands for the code
    point of the same number, so the texts covered are those whose code points are below 256.
    The character classes of \<^verbatim>\<open>str.isdigit\<close>, \<^verbatim>\<open>str.strip\<close> and
    \<^verbatim>\<open>str.splitlines\<close> are written out for that range.
  \<^item> A Python \<^verbatim>\<open>float\<close> is a \<^typ>\<open>real\<close>: rounding error, infinities and NaN are
    outside the model.
  \<^item> A Python \<^verbatim>\<open>int\<close> is an \<^typ>\<open>int\<close>.
  \<^item> An exception is a value of \<open>py_exn\<close>; a function that can raise returns
    \<open>py_exn + 'a\<close> with \<open>Inl\<close> for the exception.
\<close>

datatype py_exn =
    IndexError
  | KeyError
  | HTTPStatusError int
  | TransportError string

subsection \<open>String builtins\<close>

definition isdigit :: "char \<Rightarrow> bool" where
  \<comment> \<open>\<^verbatim>\<open>str.isdigit\<close> on one character: the ASCII digits and the superscripts
      U+00B2, U+00B3, U+00B9.\<close>
  "isdigit c =
     (let n = (of_char c :: nat)
      in (48 \<le> n \<and> n \<le> 57) \<or> n = 178 \<or> n = 179 \<or> n = 185)"

definition isspace :: "char \<Rightarrow> bool" where
  \<comment> \<open>\<^verbatim>\<open>str.isspace\<close> on one character: U+0009..U+000D, U+001C..U+001F, U+0020,
      U+0085, U+00A0.\<close>
  "isspace c =
     (let n = (of_char c :: nat)
      in (9 \<le> n \<and> n \<le> 13) \<or> (28 \<le> n \<and> n \<le> 32) \<or> n = 133 \<or> n = 160)"

definition is_linebreak :: "char \<Rightarrow> bool" where
  \<comment> \<open>the line boundaries of \<^verbatim>\<open>str.splitlines\<close>: LF, VT, FF, CR, FS, GS, RS, NEL.\<close>
  "is_linebreak c =
     (let n = (of_char c :: nat)
      in (10 \<le> n \<and> n \<le> 13) \<or> (28 \<le> n \<and> n \<le> 30) \<or> n = 133)"

definition strip :: "string \<Rightarrow> string" where
  "strip s = rev (dropWhile isspace (rev (dropWhile isspace s)))"

fun splitlines_from :: "string \<Rightarrow> string \<Rightarrow> string list" where
  \<comment> \<open>first argument: the current line, reversed; CR LF is one boundary; no empty last line.\<close>
  "splitlines_from cur [] = (if cur = [] then [] else [rev cur])"
| "splitlines_from cur [c] = (if is_linebreak c then [rev cur] else [rev (c # cur)])"
| "splitlines_from cur (c # d # cs) =
     (if c = CHR 0x0D \<and> d = CHR 0x0A then rev cur # splitlines_from [] cs
      else if is_linebreak c then rev cur # splitlines_from [] (d # cs)
      else splitlines_from (c # cur) (d # cs))"

definition splitlines :: "string \<Rightarrow> string list" where
  "splitlines s = splitlines_from [] s"

definition split1 :: "char \<Rightarrow> string \<Rightarrow> string list" where
  \<comment> \<open>\<^verbatim>\<open>s.split(sep, 1)\<close> for a one-character separator.\<close>
  "split1 sep s =
     (if sep \<in> set s
      then [takeWhile (\<lambda>c. c \<noteq> sep) s, tl (dropWhile (\<lambda>c. c \<noteq> sep) s)]
      else [s])"

fun join :: "string \<Rightarrow> string list \<Rightarrow> string" where
  \<comment> \<open>\<^verbatim>\<open>sep.join(xs)\<close>\<close>
  "join sep [] = []"
| "join sep [x] = x"
| "join sep (x # y # ys) = x @ sep @ join sep (y # ys)"

fun str_nat :: "nat \<Rightarrow> string" where
  "str_nat n =
     (if n < 10 then [char_of (48 + n)]
      else str_nat (n div 10) @ [char_of (48 + n mod 10)])"

definition str_int :: "int \<Rightarrow> string" where
  \<comment> \<open>\<^verbatim>\<open>str(i)\<close>, as \<^verbatim>\<open>format\<close> and f-strings print an int.\<close>
  "str_int i = (if i < 0 then CHR ''-'' # str_nat (nat (- i)) else str_nat (nat i))"

definition index :: "'a list \<Rightarrow> nat \<Rightarrow> py_exn + 'a" where
  \<comment> \<open>\<^verbatim>\<open>xs[i]\<close> for a non-negative index: out of range raises.\<close>
  "index xs i = (if i < length xs then Inr (xs ! i) else Inl IndexError)"

subsection \<open>Float builtins\<close>

definition round_half_even :: "real \<Rightarrow> int" where
  "round_half_even x =
     (let f = \<lfloor>x\<rfloor>; r = x - of_int f
      in if r < 1 / 2 then f else if 1 / 2 < r then f + 1 else if even f then f else f + 1)"

definition py_round :: "real \<Rightarrow> nat \<Rightarrow> real" where
  \<comment> \<open>\<^verbatim>\<open>round(x, ndigits)\<close>: to the nearest multiple of \<open>10 ^ - ndigits\<close>, ties to even.\<close>
  "py_round x ndigits = of_int (round_half_even (x * 10 ^ ndigits)) / 10 ^ ndigits"

declare str_nat.simps [simp del]

section \<open>The environment of a session\<close>

record http_response =
  status_code :: int
  body_text :: string  \<comment> \<open>attribute \<^verbatim>\<open>text\<close>\<close>
  decoded :: "py_exn + string"
    \<comment> \<open>what decoding the body as JSON and reading the generated text out of it gives
        (\<^verbatim>\<open>data["choices"][0]["message"]["content"]\<close> and its siblings); it raises on
        a body of another shape.\<close>

record environment =
  time_time :: "nat \<Rightarrow> real"
    \<comment> \<open>the value of the k-th reading of \<^verbatim>\<open>time.time()\<close> in the session\<close>
  getenv :: "string \<Rightarrow> string option"
  http_post :: "nat \<Rightarrow> string \<Rightarrow> string \<Rightarrow> py_exn + http_response"
    \<comment> \<open>the outcome of the POST issued by the k-th completion call, for a URL and a prompt\<close>

record world =
  clock_reads :: nat
  completion_calls :: nat

definition world0 :: world where
  "world0 = \<lparr>clock_reads = 0, completion_calls = 0\<rparr>"

section \<open>ModelRouter (models.py)\<close>

record model_router =
  provider :: string
  model :: string

definition call_openai :: "environment \<Rightarrow> model_router \<Rightarrow> nat \<Rightarrow> string \<Rightarrow> py_exn + string" where
  "call_openai X R k prompt =
     (case getenv X ''OPENAI_API_KEY'' of
        None \<Rightarrow> Inr ''[OPENAI] missing OPENAI_API_KEY''
      | Some api_key \<Rightarrow>
          if api_key = [] then Inr ''[OPENAI] missing OPENAI_API_KEY''
          else (case http_post X k ''https://api.openai.com/v1/completions'' prompt of
                  Inl e \<Rightarrow> Inl e
                | Inr r \<Rightarrow>
                    if status_code r \<noteq> 200
                    then Inr (''[OPENAI ERROR] '' @ str_int (status_code r) @ '': '' @ body_text r)
                    else decoded r))"

definition call_anthropic :: "environment \<Rightarrow> model_router \<Rightarrow> nat \<Rightarrow> string \<Rightarrow> py_exn + string" where
  "call_anthropic X R k prompt =
     (case getenv X ''ANTHROPIC_API_KEY'' of
        None \<Rightarrow> Inr ''[ANTHROPIC_API_KEY environment variable not set]''
      | Some api_key \<Rightarrow>
          if api_key = [] then Inr ''[ANTHROPIC_API_KEY environment variable not set]''
          else (case http_post X k ''https://api.anthropic.com/v1/messages'' prompt of
                  Inl e \<Rightarrow> Inl e
                | Inr r \<Rightarrow>
                    \<comment> \<open>\<^verbatim>\<open>response.raise_for_status()\<close>\<close>
                    if 200 \<le> status_code r \<and> status_code r < 300 then decoded r
                    else Inl (HTTPStatusError (status_code r))))"

definition call_ollama :: "environment \<Rightarrow> model_router \<Rightarrow> nat \<Rightarrow> string \<Rightarrow> py_exn + string" where
  \<comment> \<open>every exception of the request or of the decoding is caught and replaced by a message\<close>
  "call_ollama X R k prompt =
     (case http_post X k ''http://localhost:11434/api/generate'' prompt of
        Inl e \<Rightarrow> Inr ''[Failed to call Ollama; is the service running?]''
      | Inr r \<Rightarrow>
          (case decoded r of
             Inl e \<Rightarrow> Inr ''[Failed to call Ollama; is the service running?]''
           | Inr s \<Rightarrow> Inr s))"

definition completions :: "environment \<Rightarrow> model_router \<Rightarrow> nat \<Rightarrow> string \<Rightarrow> py_exn + string" where
  \<comment> \<open>the k-th call of \<^verbatim>\<open>ModelRouter.completions\<close> in the session\<close>
  "completions X R k prompt =
     (if provider R = ''openai'' then call_openai X R k prompt
      else if provider R = ''anthropic'' then call_anthropic X R k prompt
      else if provider R = ''ollama'' then call_ollama X R k prompt
      else Inr prompt)"

section \<open>CuriosityEngine (curiosity_engine.py)\<close>

record engine =
  router :: model_router
  retriever_search :: "string \<Rightarrow> nat \<Rightarrow> (string \<times> real) list"
    \<comment> \<open>\<^verbatim>\<open>self.retriever.search(query, k)\<close>\<close>
  nli_contradiction :: "string \<Rightarrow> string \<Rightarrow> real"
    \<comment> \<open>\<^verbatim>\<open>self.nli.contradiction(a, b)\<close>\<close>
  nov_thr :: real
  max_s :: real
  max_r :: int
  rubric :: string

record question =
  q_text :: string     \<comment> \<open>key \<^verbatim>\<open>"q"\<close>\<close>
  q_novelty :: real    \<comment> \<open>key \<^verbatim>\<open>"novelty"\<close>\<close>

definition novelty :: "engine \<Rightarrow> string \<Rightarrow> real" where
  \<comment> \<open>method \<^verbatim>\<open>_novelty\<close>\<close>
  "novelty E question =
     (let hits = retriever_search E question 5
      in if hits = [] then 0.5
         else (let sims = map (\<lambda>(_, d). exp (- max d 0)) hits;
                   nov = 1 - sum_list sims / real (length sims)
               in max 0 (min 1 nov)))"

definition format_prompt :: "string \<Rightarrow> string \<Rightarrow> int \<Rightarrow> string" where
  \<comment> \<open>\<^verbatim>\<open>self.prompt_template.format(rubric=.., ctx=.., n=..)\<close>\<close>
  "format_prompt rub ctx n =
     rub @ [CHR 0x0A] @ ''Context:'' @ [CHR 0x0A] @ ''- '' @ ctx @ [CHR 0x0A, CHR 0x0A]
     @ ''Produce up to '' @ str_int n @ '' distinct questions (<=25 words). Number them.''"

definition has_numbering :: "string \<Rightarrow> py_exn + bool" where
  \<comment> \<open>the condition of line 110 on a non-empty line, evaluated left to right:
      \<^verbatim>\<open>line[1]\<close> is read only when the first character is a digit and no period is
      among the first three characters.\<close>
  "has_numbering line =
     (if isdigit (hd line) \<and> CHR ''.'' \<in> set (take 3 line) then Inr True
      else if isdigit (hd line)
           then (case index line 1 of
                   Inl e \<Rightarrow> Inl e
                 | Inr c \<Rightarrow> Inr (c = CHR '')'' \<or> c = CHR ''.''))
           else Inr False)"

definition remove_numbering :: "string \<Rightarrow> string" where
  \<comment> \<open>lines 111 to 114\<close>
  "remove_numbering line =
     (let parts = (if CHR ''.'' \<in> set (take 3 line) then split1 CHR ''.'' line
                   else split1 CHR '')'' line)
      in if length parts = 2 then strip (parts ! 1) else line)"

definition parse_line :: "string \<Rightarrow> py_exn + string option" where
  \<comment> \<open>one iteration of the loop of lines 104 to 118: \<open>None\<close> is \<^verbatim>\<open>continue\<close>\<close>
  "parse_line raw =
     (let line = strip raw
      in if line = [] then Inr None
         else (case has_numbering line of
                 Inl e \<Rightarrow> Inl e
               | Inr numbered \<Rightarrow>
                   (let line' = (if numbered then remove_numbering line else line)
                    in if length line' < 6 then Inr None else Inr (Some line'))))"

fun parse_lines :: "engine \<Rightarrow> string list \<Rightarrow> question list \<Rightarrow> py_exn + question list" where
  "parse_lines E [] questions = Inr questions"
| "parse_lines E (raw # rest) questions =
     (case parse_line raw of
        Inl e \<Rightarrow> Inl e
      | Inr None \<Rightarrow> parse_lines E rest questions
      | Inr (Some line) \<Rightarrow>
          parse_lines E rest (questions @ [\<lparr>q_text = line, q_novelty = novelty E line\<rparr>]))"

definition sort_novelty_desc :: "question list \<Rightarrow> question list" where
  \<comment> \<open>\<^verbatim>\<open>questions.sort(key=lambda x: x["novelty"], reverse=True)\<close>: a stable sort,
      descending in the key.\<close>
  "sort_novelty_desc qs = sort_key (\<lambda>x. - q_novelty x) qs"

definition build_prompt :: "engine \<Rightarrow> string \<Rightarrow> int \<Rightarrow> string" where
  \<comment> \<open>lines 94 to 98\<close>
  "build_prompt E topic n =
     (let context_hits = retriever_search E topic 6;
          context_lines = map fst context_hits;
          context_block = join ([CHR 0x0A] @ ''- '') context_lines
      in format_prompt (rubric E) context_block n)"

definition generate_questions ::
  "environment \<Rightarrow> engine \<Rightarrow> string \<Rightarrow> int \<Rightarrow> world \<Rightarrow> (py_exn + question list) \<times> world" where
  "generate_questions X E topic n w =
     (let prompt = build_prompt E topic n;
          w' = w\<lparr>completion_calls := completion_calls w + 1\<rparr>
      in case completions X (router E) (completion_calls w) prompt of
           Inl e \<Rightarrow> (Inl e, w')
         | Inr raw_output \<Rightarrow>
             (case parse_lines E (splitlines raw_output) [] of
                Inl e \<Rightarrow> (Inl e, w')
              | Inr questions \<Rightarrow> (Inr (sort_novelty_desc questions), w')))"

datatype py_value = Trail "question list" | Float real

fun explore_rounds ::
  "environment \<Rightarrow> engine \<Rightarrow> int \<Rightarrow> real \<Rightarrow> nat \<Rightarrow> question list \<Rightarrow> string \<Rightarrow> world
     \<Rightarrow> (py_exn + question list) \<times> world" where
  \<comment> \<open>the loop of lines 147 to 157, with the number of iterations left\<close>
  "explore_rounds X E per_round start 0 trail current_seed w = (Inr trail, w)"
| "explore_rounds X E per_round start (Suc left) trail current_seed w =
     (let now = time_time X (clock_reads w);
          w1 = w\<lparr>clock_reads := clock_reads w + 1\<rparr>
      in if now - start > max_s E then (Inr trail, w1)
         else (case generate_questions X E current_seed per_round w1 of
                 (Inl e, w2) \<Rightarrow> (Inl e, w2)
               | (Inr batch, w2) \<Rightarrow>
                   (let fresh = filter (\<lambda>q. q_novelty q \<ge> nov_thr E) batch
                    in if fresh = [] then (Inr trail, w2)
                       else explore_rounds X E per_round start left
                              (trail @ fresh) (q_text (hd fresh)) w2)))"

definition bounded_explore ::
  "environment \<Rightarrow> engine \<Rightarrow> string \<Rightarrow> int \<Rightarrow> world
     \<Rightarrow> (py_exn + (string \<times> py_value) list) \<times> world" where
  "bounded_explore X E seed per_round w =
     (let start = time_time X (clock_reads w);
          w0 = w\<lparr>clock_reads := clock_reads w + 1\<rparr>
      in case explore_rounds X E per_round start (nat (max_r E)) [] seed w0 of
           (Inl e, w1) \<Rightarrow> (Inl e, w1)
         | (Inr trail, w1) \<Rightarrow>
             (Inr [(''trail'', Trail trail),
                   (''elapsed_s'', Float (py_round (time_time X (clock_reads w1) - start) 2))],
              w1\<lparr>clock_reads := clock_reads w1 + 1\<rparr>))"

record dissonance =
  pair_a :: string                \<comment> \<open>key \<^verbatim>\<open>"a"\<close>\<close>
  pair_b :: string                \<comment> \<open>key \<^verbatim>\<open>"b"\<close>\<close>
  pair_contradiction :: real      \<comment> \<open>key \<^verbatim>\<open>"contradiction"\<close>\<close>

definition scan_pair ::
  "engine \<Rightarrow> string list \<Rightarrow> real \<Rightarrow> nat \<Rightarrow> dissonance list \<times> (string \<times> string) list \<Rightarrow> nat
     \<Rightarrow> dissonance list \<times> (string \<times> string) list" where
  \<comment> \<open>the body of the inner loop (lines 187 to 190); the second component is the log of the
      calls made to the contradiction collaborator.\<close>
  "scan_pair E texts threshold i acc j =
     (let a = texts ! i; b = texts ! j;
          score = nli_contradiction E a b;
          calls = snd acc @ [(a, b)]
      in if score \<ge> threshold
         then (fst acc @ [\<lparr>pair_a = a, pair_b = b, pair_contradiction = py_round score 3\<rparr>], calls)
         else (fst acc, calls))"

definition scan_loops ::
  "engine \<Rightarrow> string list \<Rightarrow> real \<Rightarrow> dissonance list \<times> (string \<times> string) list" where
  "scan_loops E texts threshold =
     (let n = length texts
      in foldl (\<lambda>acc i. foldl (scan_pair E texts threshold i) acc [i + 1 ..< n])
           ([], []) [0 ..< n])"

definition dissonance_scan :: "engine \<Rightarrow> string list \<Rightarrow> real \<Rightarrow> dissonance list" where
  "dissonance_scan E texts threshold = fst (scan_loops E texts threshold)"

definition dissonance_calls :: "engine \<Rightarrow> string list \<Rightarrow> real \<Rightarrow> (string \<times> string) list" where
  \<comment> \<open>the calls \<^verbatim>\<open>self.nli.contradiction(a, b)\<close> made by one scan, in order\<close>
  "dissonance_calls E texts threshold = snd (scan_loops E texts threshold)"

section \<open>Reference definitions\<close>

text \<open>
  The parsing rule in the words of the description: a line is numbered when its first character
  is a digit and either a period is among its first three characters or its second character is
  a closing parenthesis or a period; a line survives when, stripped, it is not blank and the text
  left after the numbering is removed has at least six characters.
\<close>

definition numbered :: "string \<Rightarrow> bool" where
  "numbered line =
     (line \<noteq> [] \<and> isdigit (hd line)
      \<and> (CHR ''.'' \<in> set (take 3 line)
         \<or> (1 < length line \<and> (line ! 1 = CHR '')'' \<or> line ! 1 = CHR ''.''))))"

definition survives :: "string \<Rightarrow> bool" where
  "survives raw =
     (let line = strip raw
      in line \<noteq> [] \<and> 6 \<le> length (if numbered line then remove_numbering line else line))"

text \<open>The index pairs \<open>(i, j)\<close> with \<open>i < j < n\<close>, by ascending \<open>i\<close>, then ascending \<open>j\<close>.\<close>

definition index_pairs :: "nat \<Rightarrow> (nat \<times> nat) list" where
  "index_pairs n = concat (map (\<lambda>i. map (Pair i) [i + 1 ..< n]) [0 ..< n])"

definition pair_call :: "string list \<Rightarrow> nat \<times> nat \<Rightarrow> string \<times> string" where
  "pair_call texts p = (texts ! fst p, texts ! snd p)"

definition pair_score :: "engine \<Rightarrow> string list \<Rightarrow> nat \<times> nat \<Rightarrow> real" where
  "pair_score E texts p = nli_contradiction E (texts ! fst p) (texts ! snd p)"

definition pair_entry :: "engine \<Rightarrow> string list \<Rightarrow> nat \<times> nat \<Rightarrow> dissonance" where
  "pair_entry E texts p =
     \<lparr>pair_a = texts ! fst p, pair_b = texts ! snd p,
      pair_contradiction = py_round (pair_score E texts p) 3\<rparr>"

section \<open>Stub collaborators\<close>

text \<open>
  An environment whose clock stands still, whose API keys are set and whose k-th POST is
  answered by \<open>answers k\<close>; an engine over a retriever that knows the sentences \<open>known\<close>
  (each at distance 0 from itself) and nothing else.
\<close>

definition stub_env :: "(nat \<Rightarrow> py_exn + string) \<Rightarrow> environment" where
  "stub_env answers =
     \<lparr>time_time = (\<lambda>k. 0),
      getenv = (\<lambda>name. Some ''secret''),
      http_post = (\<lambda>k url prompt.
        case answers k of
          Inl e \<Rightarrow> Inl e
        | Inr s \<Rightarrow> Inr \<lparr>status_code = 200, body_text = s, decoded = Inr s\<rparr>)\<rparr>"

definition stub_engine :: "string \<Rightarrow> string list \<Rightarrow> real \<Rightarrow> int \<Rightarrow> engine" where
  "stub_engine prov known thr rounds =
     \<lparr>router = \<lparr>provider = prov, model = ''m''\<rparr>,
      retriever_search = (\<lambda>query k. if query \<in> set known then [(query, 0)] else []),
      nli_contradiction = (\<lambda>a b. 0),
      nov_thr = thr, max_s = 25, max_r = rounds,
      rubric = ''Ask succinct expert-level questions (why/what if/how). Hunt contradictions and edge cases. Avoid trivia.''\<rparr>"

definition three_lines :: string where
  "three_lines =
     ''1. Why does mass bend spacetime?'' @ [CHR 0x0A]
     @ ''2. What if gravity were repulsive at small scales?'' @ [CHR 0x0A]
     @ ''3) How is inertia related to gravity?''"

definition known_engine :: engine where
  "known_engine = stub_engine ''ollama'' [''Why does mass bend spacetime?''] 0.35 1"

definition echo_engine :: engine where
  "echo_engine = stub_engine ''echo'' [] 0.35 1"

definition strict_engine :: engine where
  "strict_engine = stub_engine ''ollama'' [] 0.9 1"

text \<open>
  The state of the exploration loop at the start of a round: the number of rounds left, the
  trail, the current seed and the world. \<open>next_round\<close> is the state after one round that
  is entered, whose generation succeeds and whose filtered batch is not empty (otherwise the
  loop ends in the round and there is no next state); \<open>after_rounds k\<close> is the state
  after \<open>k\<close> such rounds.
\<close>

type_synonym loop_state = "nat \<times> question list \<times> string \<times> world"

definition next_round ::
  "environment \<Rightarrow> engine \<Rightarrow> int \<Rightarrow> real \<Rightarrow> loop_state \<Rightarrow> loop_state option" where
  "next_round X E per_round start s =
     (case s of (left, trail, current_seed, w) \<Rightarrow>
        (case left of
           0 \<Rightarrow> None
         | Suc left' \<Rightarrow>
             if time_time X (clock_reads w) - start > max_s E then None
             else (case generate_questions X E current_seed per_round
                          (w\<lparr>clock_reads := clock_reads w + 1\<rparr>) of
                     (Inl e, w2) \<Rightarrow> None
                   | (Inr batch, w2) \<Rightarrow>
                       (let fresh = filter (\<lambda>q. q_novelty q \<ge> nov_thr E) batch
                        in if fresh = [] then None
                           else Some (left', trail @ fresh, q_text (hd fresh), w2)))))"

fun after_rounds ::
  "environment \<Rightarrow> engine \<Rightarrow> int \<Rightarrow> real \<Rightarrow> nat \<Rightarrow> loop_state \<Rightarrow> loop_state option" where
  "after_rounds X E per_round start 0 s = Some s"
| "after_rounds X E per_round start (Suc k) s =
     (case next_round X E per_round start s of
        None \<Rightarrow> None
      | Some s' \<Rightarrow> after_rounds X E per_round start k s')"

text \<open>
  An environment without API keys, an engine on the OpenAI provider; an environment whose first
  completion request is answered and whose later ones fail in transport, an engine on the
  Anthropic provider with three rounds.
\<close>

definition keyless_env :: environment where
  "keyless_env = (stub_env (\<lambda>k. Inr []))\<lparr>getenv := (\<lambda>name. None)\<rparr>"

definition openai_engine :: engine where
  "openai_engine = stub_engine ''openai'' [] 0.35 1"

definition flaky_env :: environment where
  "flaky_env = stub_env (\<lambda>k. if k = 0 then Inr three_lines else Inl (TransportError ''read timeout''))"

definition anthropic_engine :: engine where
  "anthropic_engine = stub_engine ''anthropic'' [''Why does mass bend spacetime?''] 0.35 3"

text \<open>
  The unordered text pairs of a scan's output, and the relation "\<open>a\<close> stands at an
  earlier position of the list than \<open>b\<close>".
\<close>

definition unordered_pairs :: "dissonance list \<Rightarrow> string set set" where
  "unordered_pairs ds = (\<lambda>d. {pair_a d, pair_b d}) ` set ds"

definition occurs_before :: "'a list \<Rightarrow> 'a \<Rightarrow> 'a \<Rightarrow> bool" where
  "occurs_before xs a b = (\<exists>i j. i < j \<and> j < length xs \<and> xs ! i = a \<and> xs ! j = b)"

text \<open>
  Two contradiction collaborators: one that depends on the order of its arguments, one that
  does not.
\<close>

definition asym_engine :: engine where
  "asym_engine = (stub_engine ''echo'' [] 0.35 1)
     \<lparr>nli_contradiction :=
        (\<lambda>a b. if a = ''A is true.'' \<and> b = ''A is false.'' then 0.9 else 0.1)\<rparr>"

definition sym_engine :: engine where
  "sym_engine = (stub_engine ''echo'' [] 0.35 1)
     \<lparr>nli_contradiction :=
        (\<lambda>a b. if {a, b} = {''A is true.'', ''A is false.''} then 0.9 else 0.1)\<rparr>"

text \<open>
  The texts that the completion provider returned to the loop, in order: one per round that
  passed the time check and whose completion call came back, up to the round in which the loop
  ended. \<open>session_completions\<close> is that list for a whole session.
\<close>

fun received_completions ::
  "environment \<Rightarrow> engine \<Rightarrow> int \<Rightarrow> real \<Rightarrow> nat \<Rightarrow> string \<Rightarrow> world \<Rightarrow> string list" where
  "received_completions X E per_round start 0 current_seed w = []"
| "received_completions X E per_round start (Suc left) current_seed w =
     (let now = time_time X (clock_reads w);
          w1 = w\<lparr>clock_reads := clock_reads w + 1\<rparr>
      in if now - start > max_s E then []
         else (case completions X (router E) (completion_calls w1)
                      (build_prompt E current_seed per_round) of
                 Inl e \<Rightarrow> []
               | Inr raw_output \<Rightarrow>
                   raw_output #
                   (case generate_questions X E current_seed per_round w1 of
                      (Inl e, w2) \<Rightarrow> []
                    | (Inr batch, w2) \<Rightarrow>
                        (let fresh = filter (\<lambda>q. q_novelty q \<ge> nov_thr E) batch
                         in if fresh = [] then []
                            else received_completions X E per_round start left
                                   (q_text (hd fresh)) w2))))"

definition session_completions ::
  "environment \<Rightarrow> engine \<Rightarrow> string \<Rightarrow> int \<Rightarrow> world \<Rightarrow> string list" where
  "session_completions X E seed per_round w =
     received_completions X E per_round (time_time X (clock_reads w)) (nat (max_r E)) seed
       (w\<lparr>clock_reads := clock_reads w + 1\<rparr>)"

section \<open>Properties\<close>

subsection \<open>Stub collaborators\<close>

lemma completions_stub:
  "prov \<in> {''openai'', ''anthropic'', ''ollama''} \<Longrightarrow> answers k = Inr s \<Longrightarrow>
   completions (stub_env answers) \<lparr>provider = prov, model = m\<rparr> k p = Inr s"
  by (auto simp: completions_def stub_env_def call_openai_def call_anthropic_def call_ollama_def)

lemma novelty_stub:
  "novelty (stub_engine prov known thr rounds) t = (if t \<in> set known then 0 else 0.5)"
  by (simp add: novelty_def stub_engine_def)

lemma splitlines_three_lines:
  "splitlines three_lines =
     [''1. Why does mass bend spacetime?'',
      ''2. What if gravity were repulsive at small scales?'',
      ''3) How is inertia related to gravity?'']"
  by code_simp

lemma parse_line_examples:
  "parse_line ''1. Why does mass bend spacetime?'' = Inr (Some ''Why does mass bend spacetime?'')"
  "parse_line ''2. What if gravity were repulsive at small scales?''
     = Inr (Some ''What if gravity were repulsive at small scales?'')"
  "parse_line ''3) How is inertia related to gravity?'' = Inr (Some ''How is inertia related to gravity?'')"
  by code_simp+

lemma parse_three_lines:
  "parse_lines known_engine (splitlines three_lines) [] =
     Inr [\<lparr>q_text = ''Why does mass bend spacetime?'', q_novelty = 0\<rparr>,
          \<lparr>q_text = ''What if gravity were repulsive at small scales?'', q_novelty = 0.5\<rparr>,
          \<lparr>q_text = ''How is inertia related to gravity?'', q_novelty = 0.5\<rparr>]"
  by (simp add: splitlines_three_lines parse_line_examples known_engine_def novelty_stub)

lemma completions_three_lines:
  "completions (stub_env (\<lambda>k. Inr three_lines)) (router known_engine) k p = Inr three_lines"
  by (simp add: known_engine_def stub_engine_def completions_stub)

subsection \<open>Novelty\<close>

text \<open>
  C2. For every text the novelty score lies in \<open>[0, 1]\<close>; it is exactly 0.5 when the lookup
  returns no neighbours, and otherwise it is 1 minus the mean of \<open>exp (- max d 0)\<close> over the
  distances \<open>d\<close> returned, clamped to \<open>[0, 1]\<close>.
\<close>

theorem novelty_in_unit_interval:
  "0 \<le> novelty E t \<and> novelty E t \<le> 1
   \<and> (retriever_search E t 5 = [] \<longrightarrow> novelty E t = 0.5)
   \<and> (retriever_search E t 5 \<noteq> [] \<longrightarrow>
        novelty E t =
          max 0 (min 1 (1 - (\<Sum>(_, d) \<leftarrow> retriever_search E t 5. exp (- max d 0))
                             / real (length (retriever_search E t 5)))))"
  by (simp add: novelty_def Let_def)

theorem novelty_in_unit_interval_witness:
  "retriever_search known_engine ''Why is the sky blue?'' 5 = []
   \<and> novelty known_engine ''Why is the sky blue?'' = 0.5
   \<and> retriever_search known_engine ''Why does mass bend spacetime?'' 5 \<noteq> []
   \<and> novelty known_engine ''Why does mass bend spacetime?'' = 0"
  using novelty_in_unit_interval [of known_engine "''Why is the sky blue?''"]
    novelty_in_unit_interval [of known_engine "''Why does mass bend spacetime?''"]
  by (simp add: known_engine_def stub_engine_def)

subsection \<open>Parsing a completion\<close>

lemma has_numbering_total:
  "has_numbering line = Inr b \<Longrightarrow> line \<noteq> [] \<Longrightarrow> b = numbered line"
  by (auto simp: has_numbering_def numbered_def index_def split: if_splits)

lemma parse_line_survives:
  "parse_line raw = Inr r \<Longrightarrow> (r \<noteq> None) = survives raw"
  by (auto simp: parse_line_def survives_def Let_def split: if_splits sum.splits
           dest: has_numbering_total)

lemma parse_lines_length:
  "parse_lines E ls acc = Inr qs \<Longrightarrow> length qs = length acc + length (filter survives ls)"
proof (induction ls arbitrary: acc)
  case Nil
  then show ?case by simp
next
  case (Cons raw rest)
  then show ?case
    by (auto split: sum.splits option.splits dest!: parse_line_survives)
qed

text \<open>
  C7. A completion made of the single line \<open>7\<close> has no line that survives the parsing rules,
  yet the generator does not return the empty sequence: reading the second character of the
  one-character line raises \<open>IndexError\<close>.
\<close>

theorem generate_questions_single_digit:
  "fst (generate_questions (stub_env (\<lambda>k. Inr ''7'')) (stub_engine ''ollama'' [] 0.35 1)
          ''gravity'' 6 world0) = Inl IndexError
   \<and> filter survives (splitlines ''7'') = []"
proof -
  have 1: "splitlines ''7'' = [''7'']" by code_simp
  have 2: "parse_line ''7'' = Inl IndexError" by code_simp
  have 3: "survives ''7'' = False" by code_simp
  show ?thesis
    by (simp add: generate_questions_def Let_def completions_stub stub_engine_def 1 2 3 world0_def)
qed

subsection \<open>Ordering of a batch\<close>

lemma sort_novelty_desc_sorted:
  "sorted_wrt (\<lambda>x y. q_novelty x \<ge> q_novelty y) (sort_novelty_desc qs)"
proof -
  have "sorted (map (\<lambda>x. - q_novelty x) (sort_novelty_desc qs))"
    by (simp add: sort_novelty_desc_def)
  then show ?thesis
    by (simp add: sorted_map sorted_wrt_iff_nth_less)
qed

lemma sort_novelty_desc_stable:
  "filter (\<lambda>x. q_novelty x = v) (sort_novelty_desc qs) = filter (\<lambda>x. q_novelty x = v) qs"
  using sort_key_stable [of "\<lambda>x. - q_novelty x" "- v" qs]
  by (simp add: sort_novelty_desc_def)

text \<open>
  C6. When the completion is delivered and its lines parse to the candidates \<open>parsed\<close>, the
  generator returns those candidates in descending order of novelty, and the candidates of any
  one novelty value appear in the order in which they were parsed.
\<close>

theorem generate_questions_sorted_stable:
  assumes "completions X (router E) (completion_calls w) (build_prompt E topic n) = Inr raw"
    and "parse_lines E (splitlines raw) [] = Inr parsed"
  shows "\<exists>qs. fst (generate_questions X E topic n w) = Inr qs
           \<and> mset qs = mset parsed
           \<and> sorted_wrt (\<lambda>x y. q_novelty x \<ge> q_novelty y) qs
           \<and> (\<forall>v. filter (\<lambda>x. q_novelty x = v) qs = filter (\<lambda>x. q_novelty x = v) parsed)"
proof -
  have "fst (generate_questions X E topic n w) = Inr (sort_novelty_desc parsed)"
    using assms by (simp add: generate_questions_def Let_def)
  moreover have "mset (sort_novelty_desc parsed) = mset parsed"
    by (simp add: sort_novelty_desc_def)
  ultimately show ?thesis
    using sort_novelty_desc_sorted sort_novelty_desc_stable by blast
qed

theorem generate_questions_sorted_stable_witness:
  "\<exists>qs. fst (generate_questions (stub_env (\<lambda>k. Inr three_lines)) known_engine ''gravity'' 6 world0)
          = Inr qs
     \<and> map q_text qs =
         [''What if gravity were repulsive at small scales?'',
          ''How is inertia related to gravity?'',
          ''Why does mass bend spacetime?'']
     \<and> sorted_wrt (\<lambda>x y. q_novelty x \<ge> q_novelty y) qs"
proof -
  from generate_questions_sorted_stable [OF completions_three_lines parse_three_lines]
  obtain qs where qs:
    "fst (generate_questions (stub_env (\<lambda>k. Inr three_lines)) known_engine ''gravity'' 6 world0)
       = Inr qs"
    "sorted_wrt (\<lambda>x y. q_novelty x \<ge> q_novelty y) qs"
    by blast
  have "fst (generate_questions (stub_env (\<lambda>k. Inr three_lines)) known_engine ''gravity'' 6 world0)
      = Inr [\<lparr>q_text = ''What if gravity were repulsive at small scales?'', q_novelty = 0.5\<rparr>,
             \<lparr>q_text = ''How is inertia related to gravity?'', q_novelty = 0.5\<rparr>,
             \<lparr>q_text = ''Why does mass bend spacetime?'', q_novelty = 0\<rparr>]"
    by (simp add: generate_questions_def Let_def completions_three_lines parse_three_lines
          sort_novelty_desc_def)
  with qs show ?thesis by auto
qed

lemma generate_questions_length:
  assumes "completions X (router E) (completion_calls w) (build_prompt E topic n) = Inr raw"
    and "generate_questions X E topic n w = (Inr qs, w')"
  shows "length qs = length (filter survives (splitlines raw))"
  using assms
  by (auto simp: generate_questions_def Let_def sort_novelty_desc_def
           split: sum.splits dest: parse_lines_length)

text \<open>
  C10. The number of candidates returned equals the number of lines of the completion that
  survive parsing; the requested count \<open>n\<close> enters the prompt only and does not bound the
  result: any other count for which the provider returns the same text gives the same result.
\<close>

theorem generate_questions_count:
  assumes "completions X (router E) (completion_calls w) (build_prompt E topic n) = Inr raw"
    and "generate_questions X E topic n w = (Inr qs, w')"
  shows "length qs = length (filter survives (splitlines raw))
         \<and> (\<forall>n'. completions X (router E) (completion_calls w) (build_prompt E topic n') = Inr raw
                \<longrightarrow> generate_questions X E topic n' w = (Inr qs, w'))"
proof (intro conjI allI impI)
  show "length qs = length (filter survives (splitlines raw))"
    using assms by (rule generate_questions_length)
next
  fix n'
  assume "completions X (router E) (completion_calls w) (build_prompt E topic n') = Inr raw"
  with assms show "generate_questions X E topic n' w = (Inr qs, w')"
    by (simp add: generate_questions_def Let_def)
qed

subsection \<open>The pairwise scan\<close>

lemma inner_loop:
  "foldl (scan_pair E texts thr i) acc js =
     (fst acc @ map (pair_entry E texts) (filter (\<lambda>p. thr \<le> pair_score E texts p) (map (Pair i) js)),
      snd acc @ map (pair_call texts) (map (Pair i) js))"
proof (induction js arbitrary: acc)
  case Nil
  then show ?case by simp
next
  case (Cons j js)
  show ?case
    by (simp add: Cons.IH) (simp add: scan_pair_def Let_def pair_entry_def pair_score_def pair_call_def)
qed

lemma outer_loop:
  "foldl (\<lambda>acc i. foldl (scan_pair E texts thr i) acc [i + 1 ..< n]) acc is =
     (fst acc @ map (pair_entry E texts)
        (filter (\<lambda>p. thr \<le> pair_score E texts p) (concat (map (\<lambda>i. map (Pair i) [i + 1 ..< n]) is))),
      snd acc @ map (pair_call texts) (concat (map (\<lambda>i. map (Pair i) [i + 1 ..< n]) is)))"
proof (induction "is" arbitrary: acc)
  case Nil
  then show ?case by simp
next
  case (Cons i "is")
  show ?case
    by (simp only: foldl_Cons Cons.IH) (simp add: inner_loop)
qed

lemma scan_loops_eq:
  "scan_loops E texts thr =
     (map (pair_entry E texts) (filter (\<lambda>p. thr \<le> pair_score E texts p) (index_pairs (length texts))),
      map (pair_call texts) (index_pairs (length texts)))"
  unfolding scan_loops_def Let_def index_pairs_def outer_loop by simp

lemma set_index_pairs: "set (index_pairs n) = {(i, j). i < j \<and> j < n}"
  by (fastforce simp: index_pairs_def)

lemma strictly_sorted_distinct:
  "sorted_wrt P xs \<Longrightarrow> (\<And>x. \<not> P x x) \<Longrightarrow> distinct xs"
  by (induction xs) auto

lemma sorted_pairs_from:
  "sorted_wrt (<) is \<Longrightarrow>
   sorted_wrt (\<lambda>p r. fst p < fst r \<or> (fst p = fst r \<and> snd p < snd r))
     (concat (map (\<lambda>i. map (Pair i) [i + 1 ..< n]) is))"
proof (induction "is")
  case Nil
  then show ?case by simp
next
  case (Cons i "is")
  then show ?case
    by (auto simp: sorted_wrt_append sorted_wrt_map)
qed

lemma sorted_index_pairs:
  "sorted_wrt (\<lambda>p r. fst p < fst r \<or> (fst p = fst r \<and> snd p < snd r)) (index_pairs n)"
  unfolding index_pairs_def by (rule sorted_pairs_from) simp

lemma distinct_index_pairs: "distinct (index_pairs n)"
  by (rule strictly_sorted_distinct [OF sorted_index_pairs]) simp

lemma length_index_pairs: "length (index_pairs n) = n * (n - 1) div 2"
proof -
  have "length (index_pairs n) = (\<Sum>i\<leftarrow>[0..<n]. n - Suc i)"
    by (simp add: index_pairs_def length_concat comp_def)
  also have "\<dots> = (\<Sum>i<n. n - Suc i)"
    by (simp add: interv_sum_list_conv_sum_set_nat atLeast0LessThan)
  also have "\<dots> = (\<Sum>i<n. i)"
    by (rule sum.nat_diff_reindex)
  also have "\<dots> = n * (n - 1) div 2"
    by (simp add: lessThan_atLeast0 Sum_Ico_nat)
  finally show ?thesis .
qed

text \<open>
  C5. On \<open>n\<close> texts the scan calls the contradiction collaborator on \<open>(texts[i], texts[j])\<close>
  once for every index pair \<open>i < j\<close>, in ascending \<open>(i, j)\<close> order, which makes
  \<open>n * (n - 1) div 2\<close> calls; its output is, in that same order, the entry
  \<open>{a: texts[i], b: texts[j], contradiction: round(score, 3)}\<close> of every pair whose score
  is at least the threshold, and of no other pair.
\<close>

theorem dissonance_scan_all_pairs:
  "dissonance_calls E texts thr = map (pair_call texts) (index_pairs (length texts))
   \<and> length (dissonance_calls E texts thr) = length texts * (length texts - 1) div 2
   \<and> dissonance_scan E texts thr =
       map (pair_entry E texts)
         (filter (\<lambda>p. thr \<le> pair_score E texts p) (index_pairs (length texts)))
   \<and> set (index_pairs (length texts)) = {(i, j). i < j \<and> j < length texts}
   \<and> distinct (index_pairs (length texts))
   \<and> sorted_wrt (\<lambda>p r. fst p < fst r \<or> (fst p = fst r \<and> snd p < snd r))
        (index_pairs (length texts))"
  by (simp add: dissonance_calls_def dissonance_scan_def scan_loops_eq length_index_pairs
        set_index_pairs distinct_index_pairs sorted_index_pairs)

subsection \<open>The echo provider\<close>

lemma splitlines_echo:
  "splitlines (build_prompt echo_engine ''gravity'' 1) =
    [''Ask succinct expert-level questions (why/what if/how). Hunt contradictions and edge cases. Avoid trivia.'',
     ''Context:'', ''- '', [], ''Produce up to 1 distinct questions (<=25 words). Number them.'']"
  by code_simp

lemma parse_line_echo:
  "parse_line ''Ask succinct expert-level questions (why/what if/how). Hunt contradictions and edge cases. Avoid trivia.''
     = Inr (Some ''Ask succinct expert-level questions (why/what if/how). Hunt contradictions and edge cases. Avoid trivia.'')"
  "parse_line ''Context:'' = Inr (Some ''Context:'')"
  "parse_line ''- '' = Inr None"
  "parse_line [] = Inr None"
  "parse_line ''Produce up to 1 distinct questions (<=25 words). Number them.''
     = Inr (Some ''Produce up to 1 distinct questions (<=25 words). Number them.'')"
  by code_simp+

lemma completions_echo: "completions X (router echo_engine) k p = Inr p"
  by (simp add: completions_def echo_engine_def stub_engine_def)

lemma generate_echo:
  "generate_questions X echo_engine ''gravity'' 1 w =
     (Inr [\<lparr>q_text = ''Ask succinct expert-level questions (why/what if/how). Hunt contradictions and edge cases. Avoid trivia.'', q_novelty = 0.5\<rparr>,
           \<lparr>q_text = ''Context:'', q_novelty = 0.5\<rparr>,
           \<lparr>q_text = ''Produce up to 1 distinct questions (<=25 words). Number them.'', q_novelty = 0.5\<rparr>],
      w\<lparr>completion_calls := completion_calls w + 1\<rparr>)"
  by (simp add: generate_questions_def Let_def completions_echo splitlines_echo parse_line_echo
        sort_novelty_desc_def)
     (simp add: echo_engine_def novelty_stub)

subsection \<open>The exploration loop\<close>

lemma explore_rounds_appends:
  "explore_rounds X E n start left trail seed w = (Inr trail', w') \<Longrightarrow>
   \<exists>added. trail' = trail @ added \<and> (\<forall>c \<in> set added. nov_thr E \<le> q_novelty c)"
proof (induction left arbitrary: trail seed w)
  case 0
  then show ?case by simp
next
  case (Suc left)
  show ?case
  proof (cases "time_time X (clock_reads w) - start > max_s E")
    case True
    with Suc.prems show ?thesis by simp
  next
    case False
    obtain r w2 where g: "generate_questions X E seed n (w\<lparr>clock_reads := clock_reads w + 1\<rparr>) = (r, w2)"
      by (cases "generate_questions X E seed n (w\<lparr>clock_reads := clock_reads w + 1\<rparr>)")
    show ?thesis
    proof (cases r)
      case (Inl e)
      with Suc.prems False g show ?thesis by (simp add: Let_def)
    next
      case (Inr batch)
      define fresh where "fresh = filter (\<lambda>q. q_novelty q \<ge> nov_thr E) batch"
      show ?thesis
      proof (cases "fresh = []")
        case True
        with Suc.prems False g Inr show ?thesis by (simp add: Let_def fresh_def)
      next
        case nonempty: False
        with Suc.prems False g Inr
        have "explore_rounds X E n start left (trail @ fresh) (q_text (hd fresh)) w2 = (Inr trail', w')"
          by (simp add: Let_def fresh_def)
        from Suc.IH [OF this] obtain added where
          "trail' = (trail @ fresh) @ added" "\<forall>c \<in> set added. nov_thr E \<le> q_novelty c"
          by blast
        moreover have "\<forall>c \<in> set fresh. nov_thr E \<le> q_novelty c"
          by (simp add: fresh_def)
        ultimately show ?thesis
          by (intro exI [of _ "fresh @ added"]) auto
      qed
    qed
  qed
qed

lemma bounded_explore_result:
  "fst (bounded_explore X E seed n w) = Inr result \<Longrightarrow>
   \<exists>trail w1. explore_rounds X E n (time_time X (clock_reads w)) (nat (max_r E)) [] seed
                 (w\<lparr>clock_reads := clock_reads w + 1\<rparr>) = (Inr trail, w1)
     \<and> result = [(''trail'', Trail trail),
                  (''elapsed_s'', Float (py_round (time_time X (clock_reads w1) - time_time X (clock_reads w)) 2))]"
  by (auto simp: bounded_explore_def Let_def split: prod.splits sum.splits)

text \<open>
  C3. Every entry of the trail returned by a session has a novelty of at least the threshold:
  each round appends only the candidates that passed the filter, and nothing is appended
  otherwise.
\<close>

theorem trail_meets_threshold:
  assumes "fst (bounded_explore X E seed per_round w) = Inr result"
  shows "\<exists>trail. map_of result ''trail'' = Some (Trail trail)
           \<and> (\<forall>c \<in> set trail. nov_thr E \<le> q_novelty c)"
proof -
  from bounded_explore_result [OF assms] obtain trail w1 where
    run: "explore_rounds X E per_round (time_time X (clock_reads w)) (nat (max_r E)) [] seed
            (w\<lparr>clock_reads := clock_reads w + 1\<rparr>) = (Inr trail, w1)"
    and res: "map_of result ''trail'' = Some (Trail trail)"
    by auto
  from explore_rounds_appends [OF run] have "\<forall>c \<in> set trail. nov_thr E \<le> q_novelty c"
    by auto
  with res show ?thesis by blast
qed

text \<open>
  C1 (amended). The result of a session has exactly the two fields \<open>trail\<close> and
  \<open>elapsed_s\<close>, whichever condition ended the loop.
\<close>

theorem keys_of_result:
  assumes "fst (bounded_explore X E seed per_round w) = Inr result"
  shows "map fst result = [''trail'', ''elapsed_s'']"
  using bounded_explore_result [OF assms] by auto

lemma generate_three_lines:
  "generate_questions (stub_env (\<lambda>k. Inr three_lines)) known_engine seed n w =
     (Inr [\<lparr>q_text = ''What if gravity were repulsive at small scales?'', q_novelty = 0.5\<rparr>,
           \<lparr>q_text = ''How is inertia related to gravity?'', q_novelty = 0.5\<rparr>,
           \<lparr>q_text = ''Why does mass bend spacetime?'', q_novelty = 0\<rparr>],
      w\<lparr>completion_calls := completion_calls w + 1\<rparr>)"
  by (simp add: generate_questions_def Let_def completions_three_lines parse_three_lines
        sort_novelty_desc_def)

theorem generate_questions_count_witness:
  "length (filter survives (splitlines (build_prompt echo_engine ''gravity'' 1))) = 3
   \<and> (1::int) < 3
   \<and> length (projr (fst (generate_questions (stub_env (\<lambda>k. Inr [])) echo_engine ''gravity'' 1 world0))) = 3
   \<and> generate_questions (stub_env (\<lambda>k. Inr three_lines)) known_engine ''gravity'' 6 world0
       = generate_questions (stub_env (\<lambda>k. Inr three_lines)) known_engine ''gravity'' 1 world0"
proof -
  have echo: "length (projr (fst (generate_questions (stub_env (\<lambda>k. Inr [])) echo_engine ''gravity'' 1 world0)))
                = length (filter survives (splitlines (build_prompt echo_engine ''gravity'' 1)))"
    using generate_questions_count
            [where X = "stub_env (\<lambda>k. Inr [])" and E = echo_engine and w = world0
               and topic = "''gravity''" and n = 1, OF completions_echo generate_echo]
    by (simp add: generate_echo)
  have "generate_questions (stub_env (\<lambda>k. Inr three_lines)) known_engine ''gravity'' 6 world0
          = generate_questions (stub_env (\<lambda>k. Inr three_lines)) known_engine ''gravity'' 1 world0"
    using generate_questions_count
            [where X = "stub_env (\<lambda>k. Inr three_lines)" and E = known_engine and w = world0
               and topic = "''gravity''" and n = 1,
             OF completions_three_lines generate_three_lines]
      completions_three_lines
    by (simp add: generate_three_lines)
  with echo show ?thesis
    by (simp add: generate_echo)
qed

lemma explore_three_lines:
  "bounded_explore (stub_env (\<lambda>k. Inr three_lines)) known_engine ''gravity'' n world0 =
     (Inr [(''trail'', Trail [\<lparr>q_text = ''What if gravity were repulsive at small scales?'', q_novelty = 0.5\<rparr>,
                             \<lparr>q_text = ''How is inertia related to gravity?'', q_novelty = 0.5\<rparr>]),
           (''elapsed_s'', Float 0)],
      \<lparr>clock_reads = 3, completion_calls = 1\<rparr>)"
proof -
  have E: "max_r known_engine = 1" "max_s known_engine = 25" "nov_thr known_engine = 0.35"
    by (simp_all add: known_engine_def stub_engine_def)
  have X: "time_time (stub_env (\<lambda>k. Inr three_lines)) = (\<lambda>k. 0)"
    by (simp add: stub_env_def)
  have R: "py_round 0 2 = 0"
    by (simp add: py_round_def round_half_even_def)
  show ?thesis
    by (simp add: bounded_explore_def Let_def E X R generate_three_lines world0_def)
qed

lemma parse_three_lines_strict:
  "parse_lines strict_engine (splitlines three_lines) [] =
     Inr [\<lparr>q_text = ''Why does mass bend spacetime?'', q_novelty = 0.5\<rparr>,
          \<lparr>q_text = ''What if gravity were repulsive at small scales?'', q_novelty = 0.5\<rparr>,
          \<lparr>q_text = ''How is inertia related to gravity?'', q_novelty = 0.5\<rparr>]"
  by (simp add: splitlines_three_lines parse_line_examples strict_engine_def novelty_stub)

lemma explore_strict:
  "bounded_explore (stub_env (\<lambda>k. Inr three_lines)) strict_engine ''gravity'' 2 world0 =
     (Inr [(''trail'', Trail []), (''elapsed_s'', Float 0)],
      \<lparr>clock_reads = 3, completion_calls = 1\<rparr>)"
proof -
  have E: "max_r strict_engine = 1" "max_s strict_engine = 25" "nov_thr strict_engine = 0.9"
    by (simp_all add: strict_engine_def stub_engine_def)
  have X: "time_time (stub_env (\<lambda>k. Inr three_lines)) = (\<lambda>k. 0)"
    by (simp add: stub_env_def)
  have R: "py_round 0 2 = 0"
    by (simp add: py_round_def round_half_even_def)
  have C: "\<And>k p. completions (stub_env (\<lambda>k. Inr three_lines)) (router strict_engine) k p = Inr three_lines"
    by (simp add: strict_engine_def stub_engine_def completions_stub)
  show ?thesis
    by (simp add: bounded_explore_def Let_def E X R C generate_questions_def
          parse_three_lines_strict sort_novelty_desc_def world0_def)
qed

lemma explore_echo:
  "bounded_explore (stub_env (\<lambda>k. Inr [])) echo_engine ''gravity'' 1 world0 =
     (Inr [(''trail'', Trail
              [\<lparr>q_text = ''Ask succinct expert-level questions (why/what if/how). Hunt contradictions and edge cases. Avoid trivia.'', q_novelty = 0.5\<rparr>,
               \<lparr>q_text = ''Context:'', q_novelty = 0.5\<rparr>,
               \<lparr>q_text = ''Produce up to 1 distinct questions (<=25 words). Number them.'', q_novelty = 0.5\<rparr>]),
           (''elapsed_s'', Float 0)],
      \<lparr>clock_reads = 3, completion_calls = 1\<rparr>)"
proof -
  have E: "max_r echo_engine = 1" "max_s echo_engine = 25" "nov_thr echo_engine = 0.35"
    by (simp_all add: echo_engine_def stub_engine_def)
  have X: "time_time (stub_env (\<lambda>k. Inr [])) = (\<lambda>k. 0)"
    by (simp add: stub_env_def)
  have R: "py_round 0 2 = 0"
    by (simp add: py_round_def round_half_even_def)
  show ?thesis
    by (simp add: bounded_explore_def Let_def E X R generate_echo world0_def)
qed

theorem trail_meets_threshold_witness:
  "\<exists>trail. map_of (projr (fst (bounded_explore (stub_env (\<lambda>k. Inr three_lines)) known_engine
                                  ''gravity'' 6 world0))) ''trail'' = Some (Trail trail)
     \<and> map q_text trail = [''What if gravity were repulsive at small scales?'',
                            ''How is inertia related to gravity?'']
     \<and> (\<forall>c \<in> set trail. nov_thr known_engine \<le> q_novelty c)"
  using trail_meets_threshold
          [where X = "stub_env (\<lambda>k. Inr three_lines)" and E = known_engine and seed = "''gravity''"
             and per_round = 6 and w = world0]
  by (simp add: explore_three_lines)

text \<open>
  C1 (as stated) fails: a session that ends because a round has no fresh candidate returns a
  result without any \<open>termination_reason\<close> field.
\<close>

theorem result_has_no_termination_reason:
  "fst (bounded_explore (stub_env (\<lambda>k. Inr three_lines)) strict_engine ''gravity'' 2 world0)
     = Inr [(''trail'', Trail []), (''elapsed_s'', Float 0)]
   \<and> map_of [(''trail'', Trail []), (''elapsed_s'', Float 0)] ''termination_reason'' = None"
  by (simp add: explore_strict)

theorem keys_of_result_witness:
  "fst (bounded_explore (stub_env (\<lambda>k. Inr three_lines)) strict_engine ''gravity'' 2 world0)
     = Inr [(''trail'', Trail []), (''elapsed_s'', Float 0)]
   \<and> map fst [(''trail'', Trail []), (''elapsed_s'', Float (0::real))] = [''trail'', ''elapsed_s'']"
  using keys_of_result
          [where X = "stub_env (\<lambda>k. Inr three_lines)" and E = strict_engine and seed = "''gravity''"
             and per_round = 2 and w = world0
             and result = "[(''trail'', Trail []), (''elapsed_s'', Float 0)]"]
  by (simp add: explore_strict)

text \<open>
  C4 (as stated) fails: with the echo provider, one round and one question requested, the
  prompt itself is parsed and three of its lines enter the trail.
\<close>

theorem trail_exceeds_rounds_times_per_round:
  "fst (bounded_explore (stub_env (\<lambda>k. Inr [])) echo_engine ''gravity'' 1 world0) =
     Inr [(''trail'', Trail
              [\<lparr>q_text = ''Ask succinct expert-level questions (why/what if/how). Hunt contradictions and edge cases. Avoid trivia.'', q_novelty = 0.5\<rparr>,
               \<lparr>q_text = ''Context:'', q_novelty = 0.5\<rparr>,
               \<lparr>q_text = ''Produce up to 1 distinct questions (<=25 words). Number them.'', q_novelty = 0.5\<rparr>]),
           (''elapsed_s'', Float 0)]
   \<and> \<not> int (length
         [\<lparr>q_text = ''Ask succinct expert-level questions (why/what if/how). Hunt contradictions and edge cases. Avoid trivia.'', q_novelty = 0.5\<rparr>,
          \<lparr>q_text = ''Context:'', q_novelty = 0.5\<rparr>,
          \<lparr>q_text = ''Produce up to 1 distinct questions (<=25 words). Number them.'', q_novelty = 0.5\<rparr>])
        \<le> max_r echo_engine * 1"
  by (simp add: explore_echo) (simp add: echo_engine_def stub_engine_def)

subsection \<open>Failures of the completion provider\<close>

lemma next_round_run:
  assumes "next_round X E n start (left, trail, seed, w) = Some (left', trail', seed', w')"
  shows "explore_rounds X E n start left trail seed w = explore_rounds X E n start left' trail' seed' w'"
  using assms
  by (cases left)
     (auto simp: next_round_def Let_def split: if_splits prod.splits sum.splits)

lemma next_round_calls:
  assumes "next_round X E n start (left, trail, seed, w) = Some (left', trail', seed', w')"
  shows "completion_calls w' = completion_calls w + 1"
  using assms
  by (cases left)
     (auto simp: next_round_def generate_questions_def Let_def split: if_splits prod.splits sum.splits)

lemma after_rounds_run:
  "after_rounds X E n start k (left, trail, seed, w) = Some (left', trail', seed', w') \<Longrightarrow>
   explore_rounds X E n start left trail seed w = explore_rounds X E n start left' trail' seed' w'
   \<and> completion_calls w' = completion_calls w + k"
proof (induction k arbitrary: left trail seed w)
  case 0
  then show ?case by simp
next
  case (Suc k)
  from Suc.prems obtain l1 t1 s1 w1 where
    step: "next_round X E n start (left, trail, seed, w) = Some (l1, t1, s1, w1)"
    and rest: "after_rounds X E n start k (l1, t1, s1, w1) = Some (left', trail', seed', w')"
    by (auto split: option.splits)
  from Suc.IH [OF rest] next_round_run [OF step] next_round_calls [OF step]
  show ?case by simp
qed

lemma raising_round:
  assumes "\<not> time_time X (clock_reads w) - start > max_s E"
    and "completions X (router E) (completion_calls w) (build_prompt E seed n) = Inl e"
  shows "explore_rounds X E n start (Suc left) trail seed w =
           (Inl e, \<lparr>clock_reads = clock_reads w + 1, completion_calls = completion_calls w + 1\<rparr>)"
  using assms by (simp add: generate_questions_def Let_def)

text \<open>
  C8 (amended). When the completion call of a round raises, after \<open>k\<close> rounds that
  went through, the session ends with that same exception: no trail is returned, and the
  failing call is the last of the \<open>k + 1\<close> completion calls of the session, so nothing
  is retried.
\<close>

theorem completion_fault_aborts_session:
  assumes reach: "after_rounds X E per_round (time_time X (clock_reads w)) k
                    (nat (max_r E), [], seed, w\<lparr>clock_reads := clock_reads w + 1\<rparr>)
                  = Some (Suc left, trail, current_seed, wk)"
    and in_budget: "\<not> time_time X (clock_reads wk) - time_time X (clock_reads w) > max_s E"
    and fault: "completions X (router E) (completion_calls wk)
                  (build_prompt E current_seed per_round) = Inl e"
  shows "bounded_explore X E seed per_round w =
           (Inl e, \<lparr>clock_reads = clock_reads wk + 1, completion_calls = completion_calls w + k + 1\<rparr>)"
proof -
  from after_rounds_run [OF reach]
  have run: "explore_rounds X E per_round (time_time X (clock_reads w)) (nat (max_r E)) [] seed
               (w\<lparr>clock_reads := clock_reads w + 1\<rparr>)
             = explore_rounds X E per_round (time_time X (clock_reads w)) (Suc left) trail
                 current_seed wk"
    and calls: "completion_calls wk = completion_calls w + k"
    by simp_all
  from raising_round [OF in_budget fault]
  have "explore_rounds X E per_round (time_time X (clock_reads w)) (Suc left) trail current_seed wk
        = (Inl e, \<lparr>clock_reads = clock_reads wk + 1, completion_calls = completion_calls wk + 1\<rparr>)" .
  with run calls show ?thesis
    by (simp add: bounded_explore_def Let_def)
qed


lemma parse_diagnostic:
  "splitlines ''[OPENAI] missing OPENAI_API_KEY'' = [''[OPENAI] missing OPENAI_API_KEY'']"
  "parse_line ''[OPENAI] missing OPENAI_API_KEY'' = Inr (Some ''[OPENAI] missing OPENAI_API_KEY'')"
  by code_simp+

lemma completions_keyless:
  "completions keyless_env (router openai_engine) k p = Inr ''[OPENAI] missing OPENAI_API_KEY''"
  by (simp add: completions_def call_openai_def keyless_env_def openai_engine_def stub_engine_def)

text \<open>
  C8 (as stated) fails: without an API key the OpenAI provider returns its diagnostic string as
  the completion, and the session ends normally with that string in the trail as a candidate
  question.
\<close>

theorem diagnostic_enters_trail:
  "completions keyless_env (router openai_engine) 0 (build_prompt openai_engine ''gravity'' 6)
     = Inr ''[OPENAI] missing OPENAI_API_KEY''
   \<and> fst (bounded_explore keyless_env openai_engine ''gravity'' 6 world0)
     = Inr [(''trail'', Trail [\<lparr>q_text = ''[OPENAI] missing OPENAI_API_KEY'', q_novelty = 0.5\<rparr>]),
            (''elapsed_s'', Float 0)]"
proof -
  have E: "max_r openai_engine = 1" "max_s openai_engine = 25" "nov_thr openai_engine = 0.35"
    by (simp_all add: openai_engine_def stub_engine_def)
  have N: "\<And>t. novelty openai_engine t = 0.5"
    by (simp add: openai_engine_def novelty_stub)
  have X: "time_time keyless_env = (\<lambda>k. 0)"
    by (simp add: keyless_env_def stub_env_def)
  have R: "py_round 0 2 = 0"
    by (simp add: py_round_def round_half_even_def)
  show ?thesis
    by (simp add: bounded_explore_def Let_def E N X R completions_keyless generate_questions_def
          parse_diagnostic sort_novelty_desc_def world0_def)
qed

lemma parse_three_lines_anthropic:
  "parse_lines anthropic_engine (splitlines three_lines) [] =
     Inr [\<lparr>q_text = ''Why does mass bend spacetime?'', q_novelty = 0\<rparr>,
          \<lparr>q_text = ''What if gravity were repulsive at small scales?'', q_novelty = 0.5\<rparr>,
          \<lparr>q_text = ''How is inertia related to gravity?'', q_novelty = 0.5\<rparr>]"
  by (simp add: splitlines_three_lines parse_line_examples anthropic_engine_def novelty_stub)

lemma completions_flaky:
  "completions flaky_env (router anthropic_engine) 0 p = Inr three_lines"
  "completions flaky_env (router anthropic_engine) (Suc k) p = Inl (TransportError ''read timeout'')"
  by (simp_all add: completions_def call_anthropic_def flaky_env_def anthropic_engine_def
        stub_engine_def stub_env_def)

lemma first_round_flaky:
  "after_rounds flaky_env anthropic_engine 6 0 1
     (3, [], ''gravity'', \<lparr>clock_reads = 1, completion_calls = 0\<rparr>)
   = Some (Suc 1,
           [\<lparr>q_text = ''What if gravity were repulsive at small scales?'', q_novelty = 0.5\<rparr>,
            \<lparr>q_text = ''How is inertia related to gravity?'', q_novelty = 0.5\<rparr>],
           ''What if gravity were repulsive at small scales?'',
           \<lparr>clock_reads = 2, completion_calls = 1\<rparr>)"
proof -
  have E: "max_s anthropic_engine = 25" "nov_thr anthropic_engine = 0.35"
    by (simp_all add: anthropic_engine_def stub_engine_def)
  have X: "time_time flaky_env = (\<lambda>k. 0)"
    by (simp add: flaky_env_def stub_env_def)
  have 3: "(3::nat) = Suc 2" by simp
  show ?thesis
    unfolding One_nat_def after_rounds.simps
    by (subst 3)
       (simp add: next_round_def Let_def E X generate_questions_def completions_flaky
          parse_three_lines_anthropic sort_novelty_desc_def)
qed

theorem completion_fault_aborts_session_witness:
  "bounded_explore flaky_env anthropic_engine ''gravity'' 6 world0 =
     (Inl (TransportError ''read timeout''), \<lparr>clock_reads = 3, completion_calls = 2\<rparr>)"
proof -
  have E: "max_r anthropic_engine = 3" "max_s anthropic_engine = 25"
    by (simp_all add: anthropic_engine_def stub_engine_def)
  have X: "time_time flaky_env = (\<lambda>k. 0)"
    by (simp add: flaky_env_def stub_env_def)
  have reach: "after_rounds flaky_env anthropic_engine 6 (time_time flaky_env (clock_reads world0)) 1
                 (nat (max_r anthropic_engine), [], ''gravity'',
                  world0\<lparr>clock_reads := clock_reads world0 + 1\<rparr>)
               = Some (Suc 1,
                   [\<lparr>q_text = ''What if gravity were repulsive at small scales?'', q_novelty = 0.5\<rparr>,
                    \<lparr>q_text = ''How is inertia related to gravity?'', q_novelty = 0.5\<rparr>],
                   ''What if gravity were repulsive at small scales?'',
                   \<lparr>clock_reads = 2, completion_calls = 1\<rparr>)"
    using first_round_flaky by (simp add: E X world0_def)
  have budget: "\<not> time_time flaky_env (clock_reads \<lparr>clock_reads = 2, completion_calls = 1\<rparr>)
                   - time_time flaky_env (clock_reads world0) > max_s anthropic_engine"
    by (simp add: E X)
  have fault: "completions flaky_env (router anthropic_engine)
                 (completion_calls \<lparr>clock_reads = 2, completion_calls = 1\<rparr>)
                 (build_prompt anthropic_engine ''What if gravity were repulsive at small scales?'' 6)
               = Inl (TransportError ''read timeout'')"
    using completions_flaky(2) [of 0] by simp
  from completion_fault_aborts_session [OF reach budget fault]
  show ?thesis by (simp add: world0_def)
qed

subsection \<open>The scan under permutation of its input\<close>

lemma unordered_pairs_scan:
  "unordered_pairs (dissonance_scan E xs thr) =
     {{a, b} | a b. thr \<le> nli_contradiction E a b \<and> occurs_before xs a b}"
proof -
  have "unordered_pairs (dissonance_scan E xs thr) =
          (\<lambda>p. {xs ! fst p, xs ! snd p}) `
            {p \<in> set (index_pairs (length xs)). thr \<le> pair_score E xs p}"
    by (simp add: unordered_pairs_def dissonance_scan_def scan_loops_eq image_image pair_entry_def)
  also have "\<dots> = {{a, b} | a b. thr \<le> nli_contradiction E a b \<and> occurs_before xs a b}"
  proof (intro set_eqI iffI)
    fix S
    assume "S \<in> (\<lambda>p. {xs ! fst p, xs ! snd p}) `
                  {p \<in> set (index_pairs (length xs)). thr \<le> pair_score E xs p}"
    then obtain i j where "i < j" "j < length xs" "thr \<le> nli_contradiction E (xs ! i) (xs ! j)"
      "S = {xs ! i, xs ! j}"
      by (auto simp: set_index_pairs pair_score_def)
    then show "S \<in> {{a, b} | a b. thr \<le> nli_contradiction E a b \<and> occurs_before xs a b}"
      unfolding occurs_before_def by blast
  next
    fix S
    assume "S \<in> {{a, b} | a b. thr \<le> nli_contradiction E a b \<and> occurs_before xs a b}"
    then obtain i j where ij: "i < j" "j < length xs"
      "thr \<le> nli_contradiction E (xs ! i) (xs ! j)" "S = {xs ! i, xs ! j}"
      unfolding occurs_before_def by blast
    then have "(i, j) \<in> {p \<in> set (index_pairs (length xs)). thr \<le> pair_score E xs p}"
      by (simp add: set_index_pairs pair_score_def)
    then show "S \<in> (\<lambda>p. {xs ! fst p, xs ! snd p}) `
                  {p \<in> set (index_pairs (length xs)). thr \<le> pair_score E xs p}"
      using ij(4) by (metis (no_types, lifting) fst_conv snd_conv image_eqI)
  qed
  finally show ?thesis .
qed

lemma occurs_before_Cons:
  "occurs_before (x # xs) a b \<longleftrightarrow> (x = a \<and> b \<in> set xs) \<or> occurs_before xs a b"
proof
  assume "occurs_before (x # xs) a b"
  then obtain i j where ij: "i < j" "j < Suc (length xs)" "(x # xs) ! i = a" "(x # xs) ! j = b"
    by (auto simp: occurs_before_def)
  then obtain j' where j': "j = Suc j'" by (cases j) auto
  show "(x = a \<and> b \<in> set xs) \<or> occurs_before xs a b"
  proof (cases i)
    case 0
    with ij j' show ?thesis by auto
  next
    case (Suc i')
    with ij j' have "i' < j'" "j' < length xs" "xs ! i' = a" "xs ! j' = b" by auto
    then show ?thesis unfolding occurs_before_def by blast
  qed
next
  assume "(x = a \<and> b \<in> set xs) \<or> occurs_before xs a b"
  then show "occurs_before (x # xs) a b"
  proof
    assume "x = a \<and> b \<in> set xs"
    then obtain j where "j < length xs" "xs ! j = b" "x = a"
      by (auto simp: in_set_conv_nth)
    then have "0 < Suc j \<and> Suc j < length (x # xs) \<and> (x # xs) ! 0 = a \<and> (x # xs) ! Suc j = b"
      by simp
    then show ?thesis unfolding occurs_before_def by blast
  next
    assume "occurs_before xs a b"
    then obtain i j where "i < j" "j < length xs" "xs ! i = a" "xs ! j = b"
      by (auto simp: occurs_before_def)
    then have "Suc i < Suc j \<and> Suc j < length (x # xs) \<and> (x # xs) ! Suc i = a \<and> (x # xs) ! Suc j = b"
      by simp
    then show ?thesis unfolding occurs_before_def by blast
  qed
qed

lemma occurs_either_remove1:
  "occurs_before xs a b \<or> occurs_before xs b a \<longleftrightarrow> a \<in> set xs \<and> b \<in> set (remove1 a xs)"
proof (induction xs)
  case Nil
  show ?case by (simp add: occurs_before_def)
next
  case (Cons x xs)
  show ?case
  proof (cases "x = a")
    case True
    have "set (remove1 a xs) \<subseteq> set xs" by (rule set_remove1_subset)
    with True Cons.IH show ?thesis
      by (auto simp: occurs_before_Cons)
  next
    case False
    with Cons.IH show ?thesis
      by (auto simp: occurs_before_Cons)
  qed
qed

lemma occurs_either_perm:
  assumes "mset xs = mset ys"
  shows "occurs_before xs a b \<or> occurs_before xs b a \<longleftrightarrow>
         occurs_before ys a b \<or> occurs_before ys b a"
proof -
  have "set xs = set ys"
    using assms by (rule mset_eq_setD)
  moreover have "mset (remove1 a xs) = mset (remove1 a ys)"
    using assms by simp
  then have "set (remove1 a xs) = set (remove1 a ys)"
    by (rule mset_eq_setD)
  ultimately show ?thesis
    by (simp only: occurs_either_remove1)
qed

lemma unordered_pairs_scan_sym:
  assumes sym: "\<And>a b. nli_contradiction E a b = nli_contradiction E b a"
  shows "unordered_pairs (dissonance_scan E xs thr) =
     {{a, b} | a b. thr \<le> nli_contradiction E a b \<and> (occurs_before xs a b \<or> occurs_before xs b a)}"
proof -
  have "{{a, b} | a b. thr \<le> nli_contradiction E a b \<and> (occurs_before xs a b \<or> occurs_before xs b a)}
        \<subseteq> {{a, b} | a b. thr \<le> nli_contradiction E a b \<and> occurs_before xs a b}"
  proof
    fix S
    assume "S \<in> {{a, b} | a b. thr \<le> nli_contradiction E a b
                     \<and> (occurs_before xs a b \<or> occurs_before xs b a)}"
    then obtain a b where S: "S = {a, b}" and t: "thr \<le> nli_contradiction E a b"
      and o: "occurs_before xs a b \<or> occurs_before xs b a"
      by blast
    from o show "S \<in> {{a, b} | a b. thr \<le> nli_contradiction E a b \<and> occurs_before xs a b}"
    proof
      assume "occurs_before xs a b"
      with S t show ?thesis by blast
    next
      assume "occurs_before xs b a"
      moreover have "thr \<le> nli_contradiction E b a" using t sym [of a b] by simp
      moreover have "S = {b, a}" using S by auto
      ultimately show ?thesis by blast
    qed
  qed
  moreover have "{{a, b} | a b. thr \<le> nli_contradiction E a b \<and> occurs_before xs a b}
        \<subseteq> {{a, b} | a b. thr \<le> nli_contradiction E a b \<and> (occurs_before xs a b \<or> occurs_before xs b a)}"
    by blast
  ultimately show ?thesis
    unfolding unordered_pairs_scan by (rule equalityI [rotated])
qed

text \<open>
  C9 (amended). When the contradiction collaborator gives the same probability to
  \<open>(a, b)\<close> and to \<open>(b, a)\<close>, two input lists that are permutations of each other
  yield the same set of unordered text pairs, for every threshold.
\<close>

theorem scan_permutation_symmetric:
  assumes sym: "\<And>a b. nli_contradiction E a b = nli_contradiction E b a"
    and perm: "mset xs = mset ys"
  shows "unordered_pairs (dissonance_scan E xs thr) = unordered_pairs (dissonance_scan E ys thr)"
  unfolding unordered_pairs_scan_sym [OF sym] occurs_either_perm [OF perm] ..


lemma scan_asym:
  "dissonance_scan asym_engine [''A is true.'', ''A is false.''] 0.5 =
     [\<lparr>pair_a = ''A is true.'', pair_b = ''A is false.'', pair_contradiction = 0.9\<rparr>]"
  "dissonance_scan asym_engine [''A is false.'', ''A is true.''] 0.5 = []"
  by code_simp+

lemma scan_sym:
  "dissonance_scan sym_engine [''A is true.'', ''A is false.'', ''B is true.''] 0.5 =
     [\<lparr>pair_a = ''A is true.'', pair_b = ''A is false.'', pair_contradiction = 0.9\<rparr>]"
  by code_simp

text \<open>
  C9 (as stated) fails: the scan asks the collaborator about \<open>(texts[i], texts[j])\<close> for
  \<open>i < j\<close> only, so with a collaborator that depends on the order of its arguments the two
  orders of the same two texts give different outputs.
\<close>

theorem scan_order_matters:
  "mset [''A is true.'', ''A is false.''] = mset [''A is false.'', ''A is true.'']
   \<and> unordered_pairs (dissonance_scan asym_engine [''A is true.'', ''A is false.''] 0.5)
       = {{''A is true.'', ''A is false.''}}
   \<and> unordered_pairs (dissonance_scan asym_engine [''A is false.'', ''A is true.''] 0.5) = {}"
  unfolding scan_asym unordered_pairs_def by simp

theorem scan_permutation_symmetric_witness:
  "mset [''A is true.'', ''A is false.'', ''B is true.'']
     = mset [''B is true.'', ''A is false.'', ''A is true.'']
   \<and> unordered_pairs (dissonance_scan sym_engine [''B is true.'', ''A is false.'', ''A is true.''] 0.5)
       = {{''A is true.'', ''A is false.''}}"
proof -
  have symm: "\<And>a b. nli_contradiction sym_engine a b = nli_contradiction sym_engine b a"
    by (simp add: sym_engine_def insert_commute)
  have perm: "mset [''A is true.'', ''A is false.'', ''B is true.'']
                = mset [''B is true.'', ''A is false.'', ''A is true.'']"
    by simp
  from scan_permutation_symmetric [OF symm perm, of "0.5"]
  have "unordered_pairs (dissonance_scan sym_engine [''B is true.'', ''A is false.'', ''A is true.''] 0.5)
        = unordered_pairs [\<lparr>pair_a = ''A is true.'', pair_b = ''A is false.'', pair_contradiction = 0.9\<rparr>]"
    unfolding scan_sym by (rule sym)
  then show ?thesis
    unfolding unordered_pairs_def by simp
qed

subsection \<open>The length of the trail\<close>

lemma received_completions_length:
  "length (received_completions X E n start left seed w) \<le> left"
proof (induction left arbitrary: seed w)
  case 0
  show ?case by simp
next
  case (Suc left)
  show ?case
    by (auto simp: Let_def Suc.IH split: sum.splits prod.splits)
qed

lemma explore_rounds_received:
  "explore_rounds X E n start left trail seed w = (Inr trail', w') \<Longrightarrow>
   length trail' \<le> length trail
     + (\<Sum>raw \<leftarrow> received_completions X E n start left seed w.
          length (filter survives (splitlines raw)))"
proof (induction left arbitrary: trail seed w)
  case 0
  then show ?case by simp
next
  case (Suc left)
  let ?w1 = "w\<lparr>clock_reads := clock_reads w + 1\<rparr>"
  show ?case
  proof (cases "time_time X (clock_reads w) - start > max_s E")
    case True
    with Suc.prems show ?thesis by simp
  next
    case False
    obtain r w2 where g: "generate_questions X E seed n ?w1 = (r, w2)"
      by (cases "generate_questions X E seed n ?w1")
    show ?thesis
    proof (cases r)
      case (Inl e)
      with Suc.prems False g show ?thesis by (simp add: Let_def)
    next
      case (Inr batch)
      from g Inr obtain raw where
        raw: "completions X (router E) (completion_calls ?w1) (build_prompt E seed n) = Inr raw"
        by (auto simp: generate_questions_def Let_def split: sum.splits)
      define fresh where "fresh = filter (\<lambda>q. q_novelty q \<ge> nov_thr E) batch"
      have "length batch = length (filter survives (splitlines raw))"
        using generate_questions_length [OF raw] g Inr by simp
      moreover have "length fresh \<le> length batch"
        unfolding fresh_def by (rule length_filter_le)
      ultimately have fresh_le: "length fresh \<le> length (filter survives (splitlines raw))"
        by simp
      show ?thesis
      proof (cases "fresh = []")
        case True
        with Suc.prems False g Inr show ?thesis by (simp add: Let_def fresh_def)
      next
        case nonempty: False
        with Suc.prems False g Inr
        have run: "explore_rounds X E n start left (trail @ fresh) (q_text (hd fresh)) w2
                     = (Inr trail', w')"
          by (simp add: Let_def fresh_def)
        have rec: "received_completions X E n start (Suc left) seed w =
                     raw # received_completions X E n start left (q_text (hd fresh)) w2"
          using False raw g Inr nonempty by (simp add: Let_def fresh_def)
        from Suc.IH [OF run] fresh_le show ?thesis
          unfolding rec by simp
      qed
    qed
  qed
qed

lemma sum_list_bounded:
  "(\<And>x. x \<in> set xs \<Longrightarrow> f x \<le> (b::nat)) \<Longrightarrow> sum_list (map f xs) \<le> length xs * b"
  by (induction xs) (auto simp: add_mono)

text \<open>
  C4 (amended). When none of the completions that a session received has more than
  \<open>per_round\<close> lines that survive parsing, the trail of the session has at most
  \<open>max_rounds * per_round\<close> entries (a negative \<open>max_rounds\<close> or
  \<open>per_round\<close> counting as 0).
\<close>

theorem trail_length_bound:
  assumes bound: "\<forall>raw \<in> set (session_completions X E seed per_round w).
                    length (filter survives (splitlines raw)) \<le> nat per_round"
    and ok: "fst (bounded_explore X E seed per_round w) = Inr result"
  shows "\<exists>trail. map_of result ''trail'' = Some (Trail trail)
           \<and> length trail \<le> nat (max_r E) * nat per_round"
proof -
  from bounded_explore_result [OF ok] obtain trail w1 where
    run: "explore_rounds X E per_round (time_time X (clock_reads w)) (nat (max_r E)) [] seed
            (w\<lparr>clock_reads := clock_reads w + 1\<rparr>) = (Inr trail, w1)"
    and res: "map_of result ''trail'' = Some (Trail trail)"
    by auto
  let ?rs = "session_completions X E seed per_round w"
  from explore_rounds_received [OF run]
  have "length trail \<le> (\<Sum>raw \<leftarrow> ?rs. length (filter survives (splitlines raw)))"
    by (simp add: session_completions_def)
  also have "\<dots> \<le> length ?rs * nat per_round"
    using bound by (intro sum_list_bounded) blast
  also have "\<dots> \<le> nat (max_r E) * nat per_round"
    unfolding session_completions_def
    by (intro mult_right_mono received_completions_length) simp
  finally show ?thesis using res by blast
qed


lemma generate_questions_calls:
  "generate_questions X E seed n w = (r, w2) \<Longrightarrow> completion_calls w2 = completion_calls w + 1"
  by (auto simp: generate_questions_def Let_def split: sum.splits)

lemma received_completions_calls:
  "explore_rounds X E n start left trail seed w = (Inr trail', w') \<Longrightarrow>
   completion_calls w' = completion_calls w + length (received_completions X E n start left seed w)"
proof (induction left arbitrary: trail seed w)
  case 0
  then show ?case by simp
next
  case (Suc left)
  let ?w1 = "w\<lparr>clock_reads := clock_reads w + 1\<rparr>"
  show ?case
  proof (cases "time_time X (clock_reads w) - start > max_s E")
    case True
    with Suc.prems show ?thesis by auto
  next
    case False
    obtain r w2 where g: "generate_questions X E seed n ?w1 = (r, w2)"
      by (cases "generate_questions X E seed n ?w1")
    from generate_questions_calls [OF g] have c: "completion_calls w2 = completion_calls w + 1"
      by simp
    show ?thesis
    proof (cases r)
      case (Inl e)
      with Suc.prems False g show ?thesis by (simp add: Let_def)
    next
      case (Inr batch)
      from g Inr obtain raw where
        raw: "completions X (router E) (completion_calls ?w1) (build_prompt E seed n) = Inr raw"
        by (auto simp: generate_questions_def Let_def split: sum.splits)
      define fresh where "fresh = filter (\<lambda>q. q_novelty q \<ge> nov_thr E) batch"
      show ?thesis
      proof (cases "fresh = []")
        case True
        with Suc.prems False g Inr raw c show ?thesis by (auto simp: Let_def fresh_def)
      next
        case nonempty: False
        with Suc.prems False g Inr
        have run: "explore_rounds X E n start left (trail @ fresh) (q_text (hd fresh)) w2
                     = (Inr trail', w')"
          by (simp add: Let_def fresh_def)
        have rec: "received_completions X E n start (Suc left) seed w =
                     raw # received_completions X E n start left (q_text (hd fresh)) w2"
          using False raw g Inr nonempty by (simp add: Let_def fresh_def)
        from Suc.IH [OF run] c show ?thesis
          unfolding rec by simp
      qed
    qed
  qed
qed

lemma splitlines_echo3:
  "splitlines (build_prompt echo_engine ''gravity'' 3) =
    [''Ask succinct expert-level questions (why/what if/how). Hunt contradictions and edge cases. Avoid trivia.'',
     ''Context:'', ''- '', [], ''Produce up to 3 distinct questions (<=25 words). Number them.'']"
  by code_simp

lemma parse_line_echo3:
  "parse_line ''Produce up to 3 distinct questions (<=25 words). Number them.''
     = Inr (Some ''Produce up to 3 distinct questions (<=25 words). Number them.'')"
  by code_simp

lemma survivors_echo3:
  "length (filter survives (splitlines (build_prompt echo_engine ''gravity'' 3))) = 3"
  by code_simp

lemma generate_echo3:
  "generate_questions X echo_engine ''gravity'' 3 w =
     (Inr [\<lparr>q_text = ''Ask succinct expert-level questions (why/what if/how). Hunt contradictions and edge cases. Avoid trivia.'', q_novelty = 0.5\<rparr>,
           \<lparr>q_text = ''Context:'', q_novelty = 0.5\<rparr>,
           \<lparr>q_text = ''Produce up to 3 distinct questions (<=25 words). Number them.'', q_novelty = 0.5\<rparr>],
      w\<lparr>completion_calls := completion_calls w + 1\<rparr>)"
  by (simp add: generate_questions_def Let_def completions_echo splitlines_echo3 parse_line_echo
        parse_line_echo3 sort_novelty_desc_def)
     (simp add: echo_engine_def novelty_stub)

lemma explore_echo3:
  "fst (bounded_explore (stub_env (\<lambda>k. Inr [])) echo_engine ''gravity'' 3 world0) =
     Inr [(''trail'', Trail
              [\<lparr>q_text = ''Ask succinct expert-level questions (why/what if/how). Hunt contradictions and edge cases. Avoid trivia.'', q_novelty = 0.5\<rparr>,
               \<lparr>q_text = ''Context:'', q_novelty = 0.5\<rparr>,
               \<lparr>q_text = ''Produce up to 3 distinct questions (<=25 words). Number them.'', q_novelty = 0.5\<rparr>]),
           (''elapsed_s'', Float 0)]"
proof -
  have E: "max_r echo_engine = 1" "max_s echo_engine = 25" "nov_thr echo_engine = 0.35"
    by (simp_all add: echo_engine_def stub_engine_def)
  have X: "time_time (stub_env (\<lambda>k. Inr [])) = (\<lambda>k. 0)"
    by (simp add: stub_env_def)
  have R: "py_round 0 2 = 0"
    by (simp add: py_round_def round_half_even_def)
  show ?thesis
    by (simp add: bounded_explore_def Let_def E X R generate_echo3 world0_def)
qed

lemma session_completions_echo3:
  "session_completions (stub_env (\<lambda>k. Inr [])) echo_engine ''gravity'' 3 world0
     = [build_prompt echo_engine ''gravity'' 3]"
proof -
  have E: "max_r echo_engine = 1" "max_s echo_engine = 25" "nov_thr echo_engine = 0.35"
    by (simp_all add: echo_engine_def stub_engine_def)
  have X: "time_time (stub_env (\<lambda>k. Inr [])) = (\<lambda>k. 0)"
    by (simp add: stub_env_def)
  show ?thesis
    by (simp add: session_completions_def Let_def E X completions_echo generate_echo3 world0_def)
qed

theorem trail_length_bound_witness:
  "session_completions (stub_env (\<lambda>k. Inr [])) echo_engine ''gravity'' 3 world0
     = [build_prompt echo_engine ''gravity'' 3]
   \<and> length (filter survives (splitlines (build_prompt echo_engine ''gravity'' 3))) = 3
   \<and> fst (bounded_explore (stub_env (\<lambda>k. Inr [])) echo_engine ''gravity'' 3 world0) =
       Inr [(''trail'', Trail
              [\<lparr>q_text = ''Ask succinct expert-level questions (why/what if/how). Hunt contradictions and edge cases. Avoid trivia.'', q_novelty = 0.5\<rparr>,
               \<lparr>q_text = ''Context:'', q_novelty = 0.5\<rparr>,
               \<lparr>q_text = ''Produce up to 3 distinct questions (<=25 words). Number them.'', q_novelty = 0.5\<rparr>]),
            (''elapsed_s'', Float 0)]
   \<and> length
        [\<lparr>q_text = ''Ask succinct expert-level questions (why/what if/how). Hunt contradictions and edge cases. Avoid trivia.'', q_novelty = 0.5::real\<rparr>,
         \<lparr>q_text = ''Context:'', q_novelty = 0.5\<rparr>,
         \<lparr>q_text = ''Produce up to 3 distinct questions (<=25 words). Number them.'', q_novelty = 0.5\<rparr>]
       \<le> nat (max_r echo_engine) * nat 3"
proof -
  have b: "\<forall>raw \<in> set (session_completions (stub_env (\<lambda>k. Inr [])) echo_engine ''gravity'' 3 world0).
             length (filter survives (splitlines raw)) \<le> nat 3"
    by (simp add: session_completions_echo3 survivors_echo3)
  from trail_length_bound [OF b explore_echo3] show ?thesis
    by (simp add: session_completions_echo3 survivors_echo3 explore_echo3)
qed

end
